theory Spec2Isabelle
  imports Complex_Main "HOL-Library.Sublist"
begin

section \<open>Python strings\<close>

text \<open>
  A Python \<open>str\<close> is a sequence of code points. It is modelled as a \<open>string\<close> whose
  characters are the code points below 256 (one \<open>char\<close> per code point, so \<open>length\<close>
  is Python's \<open>len\<close>). The functions below are the methods of \<open>str\<close> that
  \<open>nlp_processor.py\<close> calls, on that range.
\<close>

definition isspace :: "char \<Rightarrow> bool" where
  \<comment> \<open>\<open>str.isspace\<close> on one code point: U+0009..U+000D, U+001C..U+0020, U+0085, U+00A0.\<close>
  "isspace c =
     (let n = (of_char c :: nat)
      in (9 \<le> n \<and> n \<le> 13) \<or> (28 \<le> n \<and> n \<le> 32) \<or> n = 133 \<or> n = 160)"

definition strip :: "string \<Rightarrow> string" where
  \<comment> \<open>\<open>s.strip()\<close>: leading and trailing whitespace removed.\<close>
  "strip s = rev (dropWhile isspace (rev (dropWhile isspace s)))"

definition lower_char :: "char \<Rightarrow> char" where
  \<comment> \<open>\<open>A..Z\<close>, and the upper-case letters U+00C0..U+00DE but U+00D7, move up by 32.\<close>
  "lower_char c =
     (let n = (of_char c :: nat)
      in if (65 \<le> n \<and> n \<le> 90) \<or> (192 \<le> n \<and> n \<le> 222 \<and> n \<noteq> 215)
         then char_of (n + 32) else c)"

definition lower :: "string \<Rightarrow> string" where
  "lower s = map lower_char s"

definition upper_char :: "char \<Rightarrow> char" where
  \<comment> \<open>\<open>str.upper\<close> on the ASCII letters; it is applied to the fixed vocabulary only.\<close>
  "upper_char c =
     (let n = (of_char c :: nat)
      in if 97 \<le> n \<and> n \<le> 122 then char_of (n - 32) else c)"

definition upper :: "string \<Rightarrow> string" where
  "upper s = map upper_char s"

definition is_cased :: "char \<Rightarrow> bool" where
  "is_cased c =
     (let n = (of_char c :: nat) in (65 \<le> n \<and> n \<le> 90) \<or> (97 \<le> n \<and> n \<le> 122))"

fun title_from :: "bool \<Rightarrow> string \<Rightarrow> string" where
  \<comment> \<open>\<open>str.title\<close> on ASCII: a cased character is upper-cased when the character
      before it is not cased, lower-cased otherwise. The flag says whether the
      previous character was cased.\<close>
  "title_from prev [] = []"
| "title_from prev (c # cs) =
     (if is_cased c
      then (if prev then lower_char c else upper_char c) # title_from True cs
      else c # title_from False cs)"

definition title :: "string \<Rightarrow> string" where
  "title s = title_from False s"

definition replace_char :: "char \<Rightarrow> char \<Rightarrow> string \<Rightarrow> string" where
  \<comment> \<open>\<open>s.replace(a, b)\<close> for one-character \<open>a\<close> and \<open>b\<close>.\<close>
  "replace_char a b s = map (\<lambda>c. if c = a then b else c) s"

fun find_from :: "nat \<Rightarrow> string \<Rightarrow> string \<Rightarrow> int" where
  \<comment> \<open>the first position, counted from \<open>i\<close>, where \<open>sub\<close> starts in \<open>s\<close>; \<open>-1\<close> if none\<close>
  "find_from i sub [] = (if sub = [] then int i else -1)"
| "find_from i sub (c # cs) =
     (if prefix sub (c # cs) then int i else find_from (Suc i) sub cs)"

definition py_find :: "string \<Rightarrow> string \<Rightarrow> int" where
  \<comment> \<open>\<open>s.find(sub)\<close>\<close>
  "py_find s sub = find_from 0 sub s"

definition contains :: "string \<Rightarrow> string \<Rightarrow> bool" where
  \<comment> \<open>\<open>sub in s\<close>\<close>
  "contains sub s = (0 \<le> py_find s sub)"

definition adjust_index :: "nat \<Rightarrow> int \<Rightarrow> nat" where
  \<comment> \<open>a slice bound brought into \<open>0..n\<close>: a negative bound counts from the end, and
      what is still out of range is clamped\<close>
  "adjust_index n i =
     (if i < 0 then (if i + int n < 0 then 0 else nat (i + int n))
      else if int n \<le> i then n else nat i)"

definition py_slice :: "'a list \<Rightarrow> int \<Rightarrow> int \<Rightarrow> 'a list" where
  \<comment> \<open>\<open>xs[start:stop]\<close>\<close>
  "py_slice xs start stop =
     (let n = length xs; lo = adjust_index n start; hi = adjust_index n stop
      in take (hi - lo) (drop lo xs))"

section \<open>The context windower\<close>

definition extract_context :: "string \<Rightarrow> int \<Rightarrow> int \<Rightarrow> int \<Rightarrow> string" where
  \<comment> \<open>\<open>_extract_context(text, offset, length, context_window)\<close>\<close>
  "extract_context text offset len context_window =
     (if text = [] then []
      else
        let start = max 0 (offset - context_window);
            end' = min (int (length text)) (offset + len + context_window);
            context = strip (py_slice text start end');
            context = (if 0 < start then ''...'' @ context else context);
            context = (if end' < int (length text) then context @ ''...'' else context)
        in context)"

section \<open>Python values\<close>

text \<open>
  A Python \<open>float\<close> is an IEEE 754 double: a finite value, an infinity or a NaN.
  \<open>Finite x\<close> is the double whose value is the real number \<open>x\<close>, with \<open>Finite 0\<close>
  the positive zero and \<open>NegZero\<close> the negative one. A conversion or an operation
  that produces a double rounds its exact result with \<open>make_float\<close> below.
\<close>

datatype pyfloat = Finite real | NegZero | PosInf | NegInf | NaN

subsection \<open>Rounding to a double\<close>

function bit_length :: "int \<Rightarrow> nat" where
  \<comment> \<open>the number of binary digits of \<open>n\<close>\<close>
  "bit_length n = (if n \<le> 0 then 0 else Suc (bit_length (n div 2)))"
  by pat_completeness auto
termination
  by (relation "measure nat") auto

declare bit_length.simps [simp del]

definition pow2 :: "int \<Rightarrow> real" where
  "pow2 k = (if 0 \<le> k then 2 ^ nat k else 1 / 2 ^ nat (- k))"

definition binary_exponent :: "real \<Rightarrow> int" where
  \<comment> \<open>for \<open>x > 0\<close>, the \<open>e\<close> with \<open>2 ^ e \<le> x < 2 ^ (e + 1)\<close>\<close>
  "binary_exponent x =
     (if 1 \<le> x then int (bit_length \<lfloor>x\<rfloor>) - 1
      else - int (bit_length (\<lceil>1 / x\<rceil> - 1)))"

definition round_half_even :: "real \<Rightarrow> int" where
  \<comment> \<open>the nearest integer, the even one of two that are equally near\<close>
  "round_half_even y =
     (let f = \<lfloor>y\<rfloor>; d = y - of_int f
      in if d < 1 / 2 then f
         else if 1 / 2 < d then f + 1
         else if even f then f else f + 1)"

definition nearest_double :: "real \<Rightarrow> real" where
  \<comment> \<open>a magnitude rounded to 53 significant bits, to a multiple of \<open>2 ^ -1074\<close> where it
      is small; the result may be \<open>2 ^ 1024\<close>, which is out of range\<close>
  "nearest_double x =
     (if x \<le> 0 then 0
      else
        let q = max (binary_exponent x - 52) (- 1074)
        in of_int (round_half_even (x / pow2 q)) * pow2 q)"

definition make_float :: "bool \<Rightarrow> real \<Rightarrow> pyfloat option" where
  \<comment> \<open>the double nearest to a sign and a magnitude; \<open>None\<close> when it is out of range\<close>
  "make_float neg m =
     (let r = nearest_double m
      in if 2 ^ 1024 \<le> r then None
         else if r = 0 then Some (if neg then NegZero else Finite 0)
         else Some (Finite (if neg then - r else r)))"

text \<open>
  The objects that \<open>response.json()\<close> builds: \<open>None\<close>, \<open>bool\<close>, \<open>int\<close>, \<open>float\<close>,
  \<open>str\<close>, \<open>list\<close> and \<open>dict\<close>. A \<open>dict\<close> is the list of its items in insertion
  order, with distinct keys.
\<close>

datatype pyval =
    PyNone
  | PyBool bool
  | PyInt int
  | PyFloat pyfloat
  | PyStr string
  | PyList "pyval list"
  | PyDict "(string \<times> pyval) list"

type_synonym pydict = "(string \<times> pyval) list"

datatype error = AttributeError | TypeError | ValueError | OverflowError | KeyError

definition bind_err :: "error + 'a \<Rightarrow> ('a \<Rightarrow> error + 'b) \<Rightarrow> error + 'b" where
  \<comment> \<open>sequencing: the first exception raised leaves the function\<close>
  "bind_err m f = (case m of Inl e \<Rightarrow> Inl e | Inr v \<Rightarrow> f v)"

definition get_default :: "'a option \<Rightarrow> 'a \<Rightarrow> 'a" where
  \<comment> \<open>\<open>d.get(key, default)\<close>, for a key whose presence is the \<open>option\<close>\<close>
  "get_default field d = (case field of None \<Rightarrow> d | Some v \<Rightarrow> v)"

definition py_lower :: "pyval \<Rightarrow> error + string" where
  \<comment> \<open>\<open>v.lower()\<close>: only \<open>str\<close> has the method\<close>
  "py_lower v = (case v of PyStr s \<Rightarrow> Inr (lower s) | _ \<Rightarrow> Inl AttributeError)"

definition py_in :: "string \<Rightarrow> pyval \<Rightarrow> error + bool" where
  \<comment> \<open>\<open>key in v\<close> for a \<open>str\<close> key: a key of a dict, an element of a list, a
      substring of a string; the other objects are not containers\<close>
  "py_in key v =
     (case v of
        PyDict items \<Rightarrow> Inr (key \<in> set (map fst items))
      | PyList xs \<Rightarrow> Inr (PyStr key \<in> set xs)
      | PyStr s \<Rightarrow> Inr (contains key s)
      | _ \<Rightarrow> Inl TypeError)"

definition py_getitem :: "pyval \<Rightarrow> string \<Rightarrow> error + pyval" where
  \<comment> \<open>\<open>v[key]\<close> for a \<open>str\<close> key: a list and a string take integer indices only\<close>
  "py_getitem v key =
     (case v of
        PyDict items \<Rightarrow> (case map_of items key of None \<Rightarrow> Inl KeyError | Some x \<Rightarrow> Inr x)
      | _ \<Rightarrow> Inl TypeError)"

definition py_get :: "pyval \<Rightarrow> string \<Rightarrow> pyval \<Rightarrow> error + pyval" where
  \<comment> \<open>\<open>v.get(key, default)\<close>: only \<open>dict\<close> has the method\<close>
  "py_get v key d =
     (case v of
        PyDict items \<Rightarrow> Inr (case map_of items key of None \<Rightarrow> d | Some x \<Rightarrow> x)
      | _ \<Rightarrow> Inl AttributeError)"

subsection \<open>The conversion \<open>float(v)\<close>\<close>

definition is_digit :: "char \<Rightarrow> bool" where
  "is_digit c = (let n = (of_char c :: nat) in 48 \<le> n \<and> n \<le> 57)"

definition digits_value :: "string \<Rightarrow> int" where
  "digits_value ds = foldl (\<lambda>acc c. 10 * acc + (of_char c - 48)) 0 ds"

fun underscores_ok :: "char option \<Rightarrow> string \<Rightarrow> bool" where
  \<comment> \<open>an underscore stands between two digits; the first argument is the character before\<close>
  "underscores_ok prev [] = (prev \<noteq> Some CHR ''_'')"
| "underscores_ok prev (c # cs) =
     (if c = CHR ''_''
      then (case prev of None \<Rightarrow> False | Some p \<Rightarrow> is_digit p) \<and> underscores_ok (Some c) cs
      else (is_digit c \<or> prev \<noteq> Some CHR ''_'') \<and> underscores_ok (Some c) cs)"

definition split_sign :: "string \<Rightarrow> bool \<times> string" where
  \<comment> \<open>an optional sign: whether it is a minus, and what follows it\<close>
  "split_sign s =
     (case s of
        [] \<Rightarrow> (False, [])
      | c # cs \<Rightarrow>
          if c = CHR ''-'' then (True, cs)
          else if c = CHR ''+'' then (False, cs)
          else (False, s))"

definition parse_exponent :: "string \<Rightarrow> int option" where
  \<comment> \<open>what follows the mantissa: nothing, or \<open>e\<close>, an optional sign and digits\<close>
  "parse_exponent s =
     (case s of
        [] \<Rightarrow> Some 0
      | c # cs \<Rightarrow>
          if c = CHR ''e'' \<or> c = CHR ''E''
          then (let (neg, ds) = split_sign cs
                in if ds \<noteq> [] \<and> list_all is_digit ds
                   then Some (if neg then - digits_value ds else digits_value ds)
                   else None)
          else None)"

definition scale10 :: "real \<Rightarrow> int \<Rightarrow> real" where
  "scale10 m e = (if 0 \<le> e then m * 10 ^ nat e else m / 10 ^ nat (- e))"

definition signed_float :: "bool \<Rightarrow> real \<Rightarrow> pyfloat" where
  \<comment> \<open>a sign and a magnitude, rounded; a magnitude out of range is an infinity\<close>
  "signed_float neg m =
     (case make_float neg m of
        None \<Rightarrow> (if neg then NegInf else PosInf)
      | Some f \<Rightarrow> f)"

definition parse_number :: "bool \<Rightarrow> string \<Rightarrow> pyfloat option" where
  \<comment> \<open>digits, an optional point and digits, an optional exponent; a digit at least\<close>
  "parse_number neg s =
     (let ip = takeWhile is_digit s;
          r1 = dropWhile is_digit s;
          (fp, r2) =
            (case r1 of
               [] \<Rightarrow> ([], [])
             | c # cs \<Rightarrow>
                 if c = CHR ''.'' then (takeWhile is_digit cs, dropWhile is_digit cs)
                 else ([], r1))
      in if ip = [] \<and> fp = [] then None
         else (case parse_exponent r2 of
                 None \<Rightarrow> None
               | Some e \<Rightarrow>
                   Some (signed_float neg
                     (scale10 (real_of_int (digits_value (ip @ fp))) (e - int (length fp))))))"

definition float_space :: "char \<Rightarrow> bool" where
  \<comment> \<open>the whitespace that \<open>float\<close> removes around a number: U+0009..U+000D, U+0020, and
      U+0085, U+00A0; unlike \<open>str.strip\<close>, not U+001C..U+001F\<close>
  "float_space c =
     (let n = (of_char c :: nat) in (9 \<le> n \<and> n \<le> 13) \<or> n = 32 \<or> n = 133 \<or> n = 160)"

definition float_strip :: "string \<Rightarrow> string" where
  "float_strip s = rev (dropWhile float_space (rev (dropWhile float_space s)))"

definition float_of_str :: "string \<Rightarrow> pyfloat option" where
  \<comment> \<open>\<open>float(s)\<close> for a string: \<open>None\<close> where Python raises \<open>ValueError\<close>\<close>
  "float_of_str s =
     (if \<not> underscores_ok None s then None
      else
        let (neg, body) = split_sign (float_strip (filter (\<lambda>c. c \<noteq> CHR ''_'') s));
            word = lower body
        in if word = ''inf'' \<or> word = ''infinity'' then Some (if neg then NegInf else PosInf)
           else if word = ''nan'' then Some NaN
           else parse_number neg body)"

fun py_float :: "pyval \<Rightarrow> error + pyfloat" where
  "py_float PyNone = Inl TypeError"
| "py_float (PyBool b) = Inr (Finite (if b then 1 else 0))"
| "py_float (PyInt i) =
     (case make_float (i < 0) \<bar>real_of_int i\<bar> of
        None \<Rightarrow> Inl OverflowError
      | Some f \<Rightarrow> Inr f)"
| "py_float (PyFloat f) = Inr f"
| "py_float (PyStr s) =
     (case float_of_str s of None \<Rightarrow> Inl ValueError | Some f \<Rightarrow> Inr f)"
| "py_float (PyList xs) = Inl TypeError"
| "py_float (PyDict items) = Inl TypeError"

subsection \<open>Arithmetic and comparison of numbers\<close>

text \<open>
  The numbers are \<open>bool\<close> (an \<open>int\<close> of value 0 or 1), \<open>int\<close> and \<open>float\<close>. Two
  integers add and subtract exactly; with a float operand the other operand is
  converted to a float, which overflows for a large integer, and the operation is
  that of IEEE 754. A comparison of an integer with a float is exact.
\<close>

datatype number = NInt int | NFloat pyfloat

definition as_number :: "pyval \<Rightarrow> number option" where
  "as_number v =
     (case v of
        PyBool b \<Rightarrow> Some (NInt (if b then 1 else 0))
      | PyInt i \<Rightarrow> Some (NInt i)
      | PyFloat f \<Rightarrow> Some (NFloat f)
      | _ \<Rightarrow> None)"

definition of_number :: "number \<Rightarrow> pyval" where
  "of_number x = (case x of NInt i \<Rightarrow> PyInt i | NFloat f \<Rightarrow> PyFloat f)"

definition to_float :: "number \<Rightarrow> error + pyfloat" where
  "to_float x =
     (case x of
        NInt i \<Rightarrow>
          (case make_float (i < 0) \<bar>real_of_int i\<bar> of
             None \<Rightarrow> Inl OverflowError
           | Some f \<Rightarrow> Inr f)
      | NFloat f \<Rightarrow> Inr f)"

definition finite_value :: "pyfloat \<Rightarrow> real option" where
  "finite_value f = (case f of Finite x \<Rightarrow> Some x | NegZero \<Rightarrow> Some 0 | _ \<Rightarrow> None)"

definition float_neg :: "pyfloat \<Rightarrow> pyfloat" where
  "float_neg f =
     (case f of
        Finite x \<Rightarrow> (if x = 0 then NegZero else Finite (- x))
      | NegZero \<Rightarrow> Finite 0
      | PosInf \<Rightarrow> NegInf
      | NegInf \<Rightarrow> PosInf
      | NaN \<Rightarrow> NaN)"

definition float_add :: "pyfloat \<Rightarrow> pyfloat \<Rightarrow> pyfloat" where
  "float_add f g =
     (case (finite_value f, finite_value g) of
        (Some a, Some b) \<Rightarrow>
          if a + b = 0 then (if f = NegZero \<and> g = NegZero then NegZero else Finite 0)
          else signed_float (a + b < 0) \<bar>a + b\<bar>
      | _ \<Rightarrow>
          if f = NaN \<or> g = NaN then NaN
          else if (f = PosInf \<and> g = NegInf) \<or> (f = NegInf \<and> g = PosInf) then NaN
          else if f = PosInf \<or> g = PosInf then PosInf
          else NegInf)"

definition num_add :: "number \<Rightarrow> number \<Rightarrow> error + number" where
  "num_add x y =
     (case (x, y) of
        (NInt a, NInt b) \<Rightarrow> Inr (NInt (a + b))
      | _ \<Rightarrow>
          bind_err (to_float x) (\<lambda>f.
          bind_err (to_float y) (\<lambda>g.
          Inr (NFloat (float_add f g)))))"

definition num_sub :: "number \<Rightarrow> number \<Rightarrow> error + number" where
  "num_sub x y =
     (case (x, y) of
        (NInt a, NInt b) \<Rightarrow> Inr (NInt (a - b))
      | _ \<Rightarrow>
          bind_err (to_float x) (\<lambda>f.
          bind_err (to_float y) (\<lambda>g.
          Inr (NFloat (float_add f (float_neg g))))))"

definition exceeds :: "number \<Rightarrow> int \<Rightarrow> bool" where
  \<comment> \<open>\<open>x > k\<close> for an integer \<open>k\<close>\<close>
  "exceeds x k =
     (case x of
        NInt a \<Rightarrow> k < a
      | NFloat f \<Rightarrow>
          (case f of
             Finite r \<Rightarrow> real_of_int k < r
           | NegZero \<Rightarrow> k < 0
           | PosInf \<Rightarrow> True
           | NegInf \<Rightarrow> False
           | NaN \<Rightarrow> False))"

definition below :: "number \<Rightarrow> int \<Rightarrow> bool" where
  \<comment> \<open>\<open>x < k\<close> for an integer \<open>k\<close>\<close>
  "below x k =
     (case x of
        NInt a \<Rightarrow> a < k
      | NFloat f \<Rightarrow>
          (case f of
             Finite r \<Rightarrow> r < real_of_int k
           | NegZero \<Rightarrow> 0 < k
           | PosInf \<Rightarrow> False
           | NegInf \<Rightarrow> True
           | NaN \<Rightarrow> False))"

definition py_sub :: "pyval \<Rightarrow> pyval \<Rightarrow> error + number" where
  \<comment> \<open>\<open>a - b\<close>: a \<open>TypeError\<close> unless both are numbers\<close>
  "py_sub a b =
     (case (as_number a, as_number b) of
        (Some x, Some y) \<Rightarrow> num_sub x y
      | _ \<Rightarrow> Inl TypeError)"

subsection \<open>The context windower on any values\<close>

text \<open>
  \<open>_extract_context\<close> again, as Python runs it when \<open>offset\<close> and \<open>length\<close> are not
  the integers that its annotation asks for: the arithmetic is that of the numbers
  above, \<open>max(0, x)\<close> is \<open>x\<close> when \<open>x > 0\<close> and \<open>0\<close> otherwise, \<open>min(n, y)\<close> is \<open>y\<close>
  when \<open>y < n\<close> and \<open>n\<close> otherwise, and a slice bound that is a float is a
  \<open>TypeError\<close>.
\<close>

definition py_extract_context :: "string \<Rightarrow> pyval \<Rightarrow> pyval \<Rightarrow> int \<Rightarrow> error + string" where
  "py_extract_context text offset len context_window =
     (if text = [] then Inr []
      else
        (case as_number offset of
           None \<Rightarrow> Inl TypeError
         | Some off \<Rightarrow>
             bind_err (num_sub off (NInt context_window)) (\<lambda>x.
             let start = (if exceeds x 0 then x else NInt 0) in
             (case as_number len of
                None \<Rightarrow> Inl TypeError
              | Some l \<Rightarrow>
                  bind_err (num_add off l) (\<lambda>y1.
                  bind_err (num_add y1 (NInt context_window)) (\<lambda>y.
                  let end' = (if below y (int (length text)) then y else NInt (int (length text)))
                  in
                    (case (start, end') of
                       (NInt s, NInt e) \<Rightarrow>
                         let context = strip (py_slice text s e);
                             context = (if 0 < s then ''...'' @ context else context);
                             context =
                               (if e < int (length text) then context @ ''...'' else context)
                         in Inr context
                     | _ \<Rightarrow> Inl TypeError)))))))"

section \<open>The data of the classifier\<close>

text \<open>
  One element of \<open>response['entities']\<close>: a dict whose keys may be missing (\<open>None\<close>
  is a missing key) and whose values are any object.
\<close>

record entity =
  e_text :: "pyval option"
  e_begin :: "pyval option"
  e_end :: "pyval option"
  e_semantic :: "pyval option"
  e_assertion :: "pyval option"
  e_id :: "pyval option"
  e_codemaps :: "pyval option"

text \<open>The response: the list under its key \<open>entities\<close>, or \<open>None\<close> without the key.\<close>

type_synonym response = "entity list option"

text \<open>The dict that both paths return: its four keys are always there.\<close>

record entities =
  problems :: "pydict list"
  procedures :: "pydict list"
  medications :: "pydict list"
  labs :: "pydict list"

definition empty_entities :: entities where
  "empty_entities = \<lparr>problems = [], procedures = [], medications = [], labs = []\<rparr>"

definition all_records :: "entities \<Rightarrow> pydict list" where
  "all_records ents = problems ents @ procedures ents @ medications ents @ labs ents"

section \<open>The response classifier\<close>

definition ignore_patterns :: "string list" where
  "ignore_patterns =
     [''review test results'', ''patient education'', ''lifestyle'',
      ''education'', ''review'', ''follow-up'', ''follow up'',
      ''appointment'', ''monitoring'', ''discussion'', ''counseling'',
      ''instructions'', ''recommendations'', ''assessment'', ''plan'']"

definition extract_codes :: "pyval option \<Rightarrow> error + (pyval \<times> pyval \<times> pyfloat)" where
  \<comment> \<open>the code, the title and the confidence read from \<open>entity['codemaps']['imo']\<close>\<close>
  "extract_codes codemaps =
     (case codemaps of
        None \<Rightarrow> Inr (PyStr [], PyStr [], Finite 0)
      | Some cm \<Rightarrow>
          bind_err (py_in ''imo'' cm) (\<lambda>found.
          if \<not> found then Inr (PyStr [], PyStr [], Finite 0)
          else
            bind_err (py_getitem cm ''imo'') (\<lambda>imo_data.
            bind_err (py_get imo_data ''lexical_code'' (PyStr [])) (\<lambda>imo_code.
            bind_err (py_get imo_data ''lexical_title'' (PyStr [])) (\<lambda>imo_description.
            bind_err (py_get imo_data ''confidence'' (PyFloat (Finite 0))) (\<lambda>c.
            bind_err (py_float c) (\<lambda>confidence.
            Inr (imo_code, imo_description, confidence))))))))"

definition parse_entity :: "string \<Rightarrow> entity \<Rightarrow> error + (string \<times> pydict) option" where
  \<comment> \<open>the body of the loop up to \<open>entity_data\<close>: \<open>None\<close> is \<open>continue\<close>, otherwise the
      lower-cased category and the record\<close>
  "parse_entity original_text entity =
     bind_err (py_lower (get_default (e_assertion entity) (PyStr []))) (\<lambda>assertion.
     if assertion \<noteq> ''present'' then Inr None
     else
       bind_err (py_lower (get_default (e_text entity) (PyStr []))) (\<lambda>lowered.
       let entity_text = strip lowered in
       if list_ex (\<lambda>pattern. contains pattern entity_text) ignore_patterns then Inr None
       else
         bind_err (py_lower (get_default (e_semantic entity) (PyStr []))) (\<lambda>category.
         let offset = get_default (e_begin entity) (PyInt 0);
             end_offset = get_default (e_end entity) (PyInt 0)
         in
           bind_err (py_sub end_offset offset) (\<lambda>len.
           bind_err (py_extract_context original_text offset (of_number len) 200) (\<lambda>context.
           bind_err (extract_codes (e_codemaps entity)) (\<lambda>(imo_code, imo_description, confidence).
           Inr (Some (category,
             [(''text'', get_default (e_text entity) (PyStr [])),
              (''code'', imo_code),
              (''code_system'', PyStr ''IMO''),
              (''description'', imo_description),
              (''offset'', offset),
              (''length'', of_number len),
              (''confidence'', PyFloat confidence),
              (''context'', PyStr context),
              (''entity_id'', get_default (e_id entity) (PyStr [])),
              (''semantic'', get_default (e_semantic entity) (PyStr [])),
              (''assertion'', get_default (e_assertion entity) (PyStr [])),
              (''codemaps'', get_default (e_codemaps entity) (PyDict []))]))))))))"

definition categorize :: "string \<Rightarrow> pydict \<Rightarrow> entities \<Rightarrow> entities" where
  \<comment> \<open>the \<open>if\<close>/\<open>elif\<close> chain that appends \<open>entity_data\<close>\<close>
  "categorize category entity_data ents =
     (if contains ''problem'' category \<or> contains ''condition'' category
         \<or> contains ''diagnosis'' category
      then ents\<lparr>problems := problems ents @ [entity_data]\<rparr>
      else if contains ''procedure'' category
      then ents\<lparr>procedures := procedures ents @ [entity_data]\<rparr>
      else if contains ''medication'' category \<or> contains ''drug'' category
      then ents\<lparr>medications := medications ents @ [entity_data]\<rparr>
      else if contains ''lab'' category \<or> contains ''observation'' category
         \<or> contains ''test'' category
      then ents\<lparr>labs := labs ents @ [entity_data]\<rparr>
      else ents)"

fun parse_entities :: "string \<Rightarrow> entity list \<Rightarrow> entities \<Rightarrow> error + entities" where
  \<comment> \<open>\<open>for entity in response['entities']\<close>, from the dict built so far\<close>
  "parse_entities original_text [] ents = Inr ents"
| "parse_entities original_text (entity # rest) ents =
     (case parse_entity original_text entity of
        Inl err \<Rightarrow> Inl err
      | Inr None \<Rightarrow> parse_entities original_text rest ents
      | Inr (Some (category, entity_data)) \<Rightarrow>
          parse_entities original_text rest (categorize category entity_data ents))"

definition parse_extraction_response :: "response \<Rightarrow> string \<Rightarrow> error + entities" where
  \<comment> \<open>\<open>_parse_extraction_response(response, original_text)\<close>\<close>
  "parse_extraction_response response original_text =
     (case response of
        None \<Rightarrow> Inr empty_entities
      | Some es \<Rightarrow> parse_entities original_text es empty_entities)"

section \<open>The fallback matcher\<close>

definition problem_keywords :: "string list" where
  "problem_keywords =
     [''hypertension'', ''diabetes'', ''stemi'', ''myocardial infarction'', ''chest pain'',
      ''hyperlipidemia'', ''pain'', ''infection'', ''fever'', ''pneumonia'', ''copd'',
      ''heart failure'', ''arrhythmia'', ''stroke'', ''asthma'']"

definition procedure_keywords :: "string list" where
  "procedure_keywords =
     [''catheterization'', ''surgery'', ''biopsy'', ''intubation'', ''procedure'',
      ''operation'', ''endoscopy'', ''colonoscopy'', ''angiography'', ''stent'']"

definition medication_keywords :: "string list" where
  "medication_keywords =
     [''aspirin'', ''metformin'', ''lisinopril'', ''atorvastatin'', ''clopidogrel'',
      ''heparin'', ''insulin'', ''warfarin'', ''levothyroxine'', ''amlodipine'',
      ''omeprazole'', ''prednisone'', ''albuterol'']"

definition lab_keywords :: "string list" where
  "lab_keywords =
     [''troponin'', ''ekg'', ''blood pressure'', ''heart rate'', ''glucose'',
      ''hemoglobin'', ''creatinine'', ''bun'', ''wbc'', ''platelets'', ''inr'',
      ''cholesterol'', ''ldl'', ''hdl'', ''triglycerides'']"

definition demo_entry :: "string \<Rightarrow> string \<Rightarrow> string \<Rightarrow> real \<Rightarrow> string \<Rightarrow> pydict" where
  \<comment> \<open>the dict appended for a keyword found in the text; \<open>confidence\<close> is the value of
      the float literal of the loop\<close>
  "demo_entry text text_lower code_system confidence keyword =
     (let offset = py_find text_lower keyword;
          context = extract_context text offset (int (length keyword)) 50
      in [(''text'', PyStr (title keyword)),
          (''code'', PyStr (''DEMO-'' @ upper (replace_char CHR '' '' CHR ''-'' keyword))),
          (''code_system'', PyStr code_system),
          (''description'', PyStr (title keyword)),
          (''confidence'', PyFloat (Finite confidence)),
          (''context'', PyStr context)])"

fun demo_scan :: "string \<Rightarrow> string \<Rightarrow> string \<Rightarrow> real \<Rightarrow> string list \<Rightarrow> pydict list \<Rightarrow> pydict list" where
  \<comment> \<open>one \<open>for keyword in ...\<close> loop, from the list built so far\<close>
  "demo_scan text text_lower code_system confidence [] found = found"
| "demo_scan text text_lower code_system confidence (keyword # rest) found =
     demo_scan text text_lower code_system confidence rest
       (if contains keyword text_lower
        then found @ [demo_entry text text_lower code_system confidence keyword]
        else found)"

definition demo_extract_entities :: "string \<Rightarrow> entities" where
  \<comment> \<open>\<open>_demo_extract_entities(text)\<close>; a literal such as \<open>0.85\<close> is the double nearest
      to it\<close>
  "demo_extract_entities text =
     (let text_lower = lower text
      in \<lparr>problems = demo_scan text text_lower ''ICD-10-CM'' (nearest_double 0.85) problem_keywords [],
          procedures = demo_scan text text_lower ''CPT'' (nearest_double 0.80) procedure_keywords [],
          medications = demo_scan text text_lower ''RxNorm'' (nearest_double 0.90) medication_keywords [],
          labs = demo_scan text text_lower ''LOINC'' (nearest_double 0.75) lab_keywords []\<rparr>)"

section \<open>Notions used to state the properties\<close>

definition unit_float :: "pyfloat \<Rightarrow> bool" where
  \<comment> \<open>a finite value in the interval from 0.0 to 1.0\<close>
  "unit_float f = (case f of Finite x \<Rightarrow> 0 \<le> x \<and> x \<le> 1 | NegZero \<Rightarrow> True | _ \<Rightarrow> False)"

definition valid_confidence :: "pydict \<Rightarrow> bool" where
  "valid_confidence r =
     (case map_of r ''confidence'' of Some (PyFloat f) \<Rightarrow> unit_float f | _ \<Rightarrow> False)"

definition mapping_confidence :: "pyval \<Rightarrow> pyval option" where
  \<comment> \<open>the value stored at \<open>codemaps['imo']['confidence']\<close>, if there is one\<close>
  "mapping_confidence codemaps =
     (case codemaps of
        PyDict cm \<Rightarrow>
          (case map_of cm ''imo'' of Some (PyDict d) \<Rightarrow> map_of d ''confidence'' | _ \<Rightarrow> None)
      | _ \<Rightarrow> None)"

definition vendor_confidence :: "entity \<Rightarrow> pyval option" where
  \<comment> \<open>the vendor's confidence of a span: that of its code mappings, none without them\<close>
  "vendor_confidence e = mapping_confidence (get_default (e_codemaps e) (PyDict []))"

definition vendor_unit :: "entity \<Rightarrow> bool" where
  \<comment> \<open>the vendor's confidence, where there is one, converts to a value from 0.0 to 1.0\<close>
  "vendor_unit e =
     (case vendor_confidence e of
        None \<Rightarrow> True
      | Some v \<Rightarrow> (case py_float v of Inl err \<Rightarrow> False | Inr f \<Rightarrow> unit_float f))"


text \<open>
  The category assignment in the words of the specification: four keyword groups in
  priority order, the first group with a keyword inside the label wins.
\<close>

datatype category = Problems | Procedures | Medications | Labs

definition keyword_groups :: "(string list \<times> category) list" where
  "keyword_groups =
     [([''problem'', ''condition'', ''diagnosis''], Problems),
      ([''procedure''], Procedures),
      ([''medication'', ''drug''], Medications),
      ([''lab'', ''observation'', ''test''], Labs)]"

definition first_match :: "string \<Rightarrow> category option" where
  "first_match label =
     map_option snd
       (List.find (\<lambda>(keywords, c). list_ex (\<lambda>k. contains k label) keywords) keyword_groups)"

fun append_to :: "category option \<Rightarrow> pydict \<Rightarrow> entities \<Rightarrow> entities" where
  "append_to None r ents = ents"
| "append_to (Some Problems) r ents = ents\<lparr>problems := problems ents @ [r]\<rparr>"
| "append_to (Some Procedures) r ents = ents\<lparr>procedures := procedures ents @ [r]\<rparr>"
| "append_to (Some Medications) r ents = ents\<lparr>medications := medications ents @ [r]\<rparr>"
| "append_to (Some Labs) r ents = ents\<lparr>labs := labs ents @ [r]\<rparr>"

text \<open>
  The context windower in the words of the specification: the substring of the text
  from position \<open>start\<close> to position \<open>end\<close>, with the whitespace at its two ends
  removed, between the ellipsis markers.
\<close>

definition spec_substring :: "string \<Rightarrow> int \<Rightarrow> int \<Rightarrow> string" where
  \<comment> \<open>the characters at the positions \<open>i\<close> with \<open>start \<le> i < end\<close>\<close>
  "spec_substring text start end' = drop (nat start) (take (nat end') text)"

fun trim_right :: "string \<Rightarrow> string" where
  \<comment> \<open>the string without the whitespace at its end\<close>
  "trim_right [] = []"
| "trim_right (c # cs) = (if isspace c \<and> trim_right cs = [] then [] else c # trim_right cs)"

definition spec_trim :: "string \<Rightarrow> string" where
  "spec_trim s = trim_right (dropWhile isspace s)"

definition spec_extract_context :: "string \<Rightarrow> int \<Rightarrow> int \<Rightarrow> int \<Rightarrow> string" where
  "spec_extract_context text offset len window_radius =
     (if text = [] then []
      else
        let start = max 0 (offset - window_radius);
            end' = min (int (length text)) (offset + len + window_radius)
        in (if 0 < start then ''...'' else []) @
           spec_trim (spec_substring text start end') @
           (if end' < int (length text) then ''...'' else []))"

text \<open>
  A span used in the examples: \<open>"Fever"\<close> from position \<open>b\<close> to position \<open>n\<close>, a
  problem that is present, with the vendor's confidence \<open>conf\<close> in its \<open>imo\<close> mapping;
  and the record that the classifier builds from it in a text whose context is
  \<open>context\<close>, when the conversion of \<open>conf\<close> gives \<open>confidence\<close>.
\<close>

definition example_span :: "int \<Rightarrow> int \<Rightarrow> pyval \<Rightarrow> entity" where
  "example_span b n conf =
     \<lparr>e_text = Some (PyStr ''Fever''), e_begin = Some (PyInt b), e_end = Some (PyInt n),
      e_semantic = Some (PyStr ''problem''), e_assertion = Some (PyStr ''present''),
      e_id = Some (PyStr ''e1''),
      e_codemaps = Some (PyDict [(''imo'', PyDict [(''confidence'', conf)])])\<rparr>"

definition example_record :: "int \<Rightarrow> int \<Rightarrow> pyval \<Rightarrow> pyfloat \<Rightarrow> string \<Rightarrow> pydict" where
  "example_record b n conf confidence context =
     [(''text'', PyStr ''Fever''),
      (''code'', PyStr []),
      (''code_system'', PyStr ''IMO''),
      (''description'', PyStr []),
      (''offset'', PyInt b),
      (''length'', PyInt (n - b)),
      (''confidence'', PyFloat confidence),
      (''context'', PyStr context),
      (''entity_id'', PyStr ''e1''),
      (''semantic'', PyStr ''problem''),
      (''assertion'', PyStr ''present''),
      (''codemaps'', PyDict [(''imo'', PyDict [(''confidence'', conf)])])]"

section \<open>Properties of the rounding\<close>

text \<open>The binary exponent is the one that its comment describes.\<close>

lemma bit_length_bounds:
  "0 < n \<Longrightarrow> 2 ^ (bit_length n - 1) \<le> n \<and> n < 2 ^ bit_length n"
proof (induction n rule: bit_length.induct)
  case (1 n)
  show ?case
  proof (cases "n = 1")
    case True
    then show ?thesis by (simp add: bit_length.simps)
  next
    case False
    with "1.prems" have half: "0 < n div 2" by simp
    with "1.prems" "1.IH"
    have ih: "2 ^ (bit_length (n div 2) - 1) \<le> n div 2 \<and> n div 2 < 2 ^ bit_length (n div 2)"
      by simp
    from half have pos: "0 < bit_length (n div 2)"
      by (subst bit_length.simps) simp
    from "1.prems" have len: "bit_length n = Suc (bit_length (n div 2))"
      by (subst bit_length.simps) simp
    from pos obtain k where k: "bit_length (n div 2) = Suc k"
      by (cases "bit_length (n div 2)") auto
    from ih k have "2 ^ k \<le> n div 2" and "n div 2 < 2 * 2 ^ k" by simp_all
    then have "2 * 2 ^ k \<le> n" and "n < 2 * (2 * 2 ^ k)" by linarith+
    then show ?thesis by (simp add: len k)
  qed
qed


lemma bit_length_pos: "0 < n \<Longrightarrow> 0 < bit_length n"
  by (subst bit_length.simps) simp

lemma binary_exponent_bounds:
  assumes "0 < x"
  shows "pow2 (binary_exponent x) \<le> x \<and> x < pow2 (binary_exponent x + 1)"
proof (cases "1 \<le> x")
  case True
  define n where "n = \<lfloor>x\<rfloor>"
  from True have n: "0 < n" by (simp add: n_def)
  from bit_length_pos [OF n] obtain k where k: "bit_length n = Suc k"
    by (cases "bit_length n") auto
  from bit_length_bounds [OF n] k have "2 ^ k \<le> n" and "n < 2 * 2 ^ k" by simp_all
  then have "n + 1 \<le> 2 * 2 ^ k" by simp
  then have "real_of_int (n + 1) \<le> real_of_int (2 * 2 ^ k)" by (rule of_int_le_iff [THEN iffD2])
  then have "real_of_int n + 1 \<le> 2 * 2 ^ k" by simp
  moreover have "x < real_of_int n + 1" by (simp add: n_def)
  ultimately have upper: "x < 2 * 2 ^ k" by linarith
  from \<open>2 ^ k \<le> n\<close> have "real_of_int (2 ^ k) \<le> real_of_int n"
    by (rule of_int_le_iff [THEN iffD2])
  then have "(2::real) ^ k \<le> real_of_int n" by simp
  moreover have "real_of_int n \<le> x" by (simp add: n_def)
  ultimately have lower: "2 ^ k \<le> x" by linarith
  from True k have "binary_exponent x = int k"
    by (simp add: binary_exponent_def n_def [symmetric])
  with lower upper show ?thesis
    by (simp add: pow2_def nat_add_distrib)
next
  case False
  define y where "y = 1 / x"
  define m where "m = \<lceil>y\<rceil> - 1"
  from False assms have y: "1 < y" by (simp add: y_def)
  then have "2 \<le> \<lceil>y\<rceil>" by (simp add: le_ceiling_iff)
  then have m: "0 < m" by (simp add: m_def)
  from bit_length_pos [OF m] obtain k where k: "bit_length m = Suc k"
    by (cases "bit_length m") auto
  from bit_length_bounds [OF m] k have "2 ^ k \<le> m" and "m < 2 * 2 ^ k" by simp_all
  then have "m + 1 \<le> 2 * 2 ^ k" by simp
  then have "real_of_int (m + 1) \<le> real_of_int (2 * 2 ^ k)" by (rule of_int_le_iff [THEN iffD2])
  then have "real_of_int m + 1 \<le> 2 * 2 ^ k" by simp
  moreover have "y \<le> real_of_int m + 1" by (simp add: m_def)
  ultimately have upper: "y \<le> 2 * 2 ^ k" by linarith
  from \<open>2 ^ k \<le> m\<close> have "real_of_int (2 ^ k) \<le> real_of_int m"
    by (rule of_int_le_iff [THEN iffD2])
  then have "(2::real) ^ k \<le> real_of_int m" by simp
  moreover have "real_of_int m < y" by (simp add: m_def ceiling_correct)
  ultimately have lower: "2 ^ k < y" by linarith
  have x: "x = 1 / y" by (simp add: y_def)
  from upper y have a: "1 / (2 * 2 ^ k) \<le> x"
    unfolding x by (intro divide_left_mono) simp_all
  from y have "0 < y * 2 ^ k" by simp
  with lower have b: "x < 1 / 2 ^ k"
    unfolding x by (intro divide_strict_left_mono) simp_all
  from False k have e: "binary_exponent x = - int (Suc k)"
    by (simp add: binary_exponent_def y_def [symmetric] m_def [symmetric])
  have "nat (- (- int (Suc k))) = Suc k" by simp
  then have p1: "pow2 (- int (Suc k)) = 1 / (2 * 2 ^ k)"
    unfolding pow2_def by simp
  have "- int (Suc k) + 1 = - int k" by simp
  moreover have "pow2 (- int k) = 1 / 2 ^ k"
  proof (cases k)
    case 0
    then show ?thesis by (simp add: pow2_def)
  next
    case (Suc j)
    have "nat (- (- int (Suc j))) = Suc j" by simp
    then show ?thesis unfolding Suc pow2_def by simp
  qed
  ultimately have p2: "pow2 (- int (Suc k) + 1) = 1 / 2 ^ k" by simp
  from a b show ?thesis
    by (simp only: e p1 p2)
qed

section \<open>Evaluation on examples\<close>

lemmas string_defs = strip_def isspace_def lower_def lower_char_def upper_def upper_char_def
  title_def is_cased_def replace_char_def py_find_def contains_def char_of_eq_iff

lemmas rounding_defs = make_float_def nearest_double_def binary_exponent_def
  round_half_even_def pow2_def bit_length.simps Let_def

lemmas float_defs = float_of_str_def parse_number_def parse_exponent_def split_sign_def
  signed_float_def scale10_def digits_value_def is_digit_def float_strip_def float_space_def

lemma double_085: "nearest_double 0.85 = 7656119366529843 / 9007199254740992"
  by (simp add: rounding_defs)

lemma float_of_5: "py_float (PyInt 5) = Inr (Finite 5)"
  by (simp add: rounding_defs)

lemma float_of_1: "py_float (PyInt 1) = Inr (Finite 1)"
  by (simp add: rounding_defs)




text \<open>The conversion \<open>float\<close> where rounding, underflow or the whitespace set matter.\<close>

lemma float_of_large_int: "py_float (PyInt (2 ^ 53 + 1)) = Inr (Finite (2 ^ 53))"
  by (simp add: rounding_defs)

lemma float_of_long_decimal: "py_float (PyStr ''1.00000000000000000001'') = Inr (Finite 1)"
  by (simp add: float_defs string_defs rounding_defs)

lemma float_of_tiny: "py_float (PyStr ''1e-400'') = Inr (Finite 0)"
  by (simp add: float_defs string_defs rounding_defs)

lemma float_of_negative_zero: "py_float (PyStr ''-0.0'') = Inr NegZero"
  by (simp add: float_defs string_defs rounding_defs)

lemma float_of_separator: "py_float (PyStr [CHR 0x1C, CHR ''0'', CHR ''.'', CHR ''5'']) = Inl ValueError"
  by (simp add: float_defs string_defs rounding_defs)

lemma float_of_no_break_space:
  "py_float (PyStr [CHR 0xA0, CHR ''0'', CHR ''.'', CHR ''5'', CHR 0x85]) = Inr (Finite 0.5)"
  by (simp add: float_defs string_defs rounding_defs)

section \<open>Properties of the context windower\<close>

lemma py_slice_sublist: "sublist (py_slice xs a b) xs"
proof -
  define lo where "lo = adjust_index (length xs) a"
  define hi where "hi = adjust_index (length xs) b"
  have "xs = take lo xs @ take (hi - lo) (drop lo xs) @ drop (hi - lo) (drop lo xs)"
    by (metis append_take_drop_id)
  then have "sublist (take (hi - lo) (drop lo xs)) xs"
    unfolding sublist_def by blast
  then show ?thesis
    by (simp add: py_slice_def Let_def lo_def hi_def)
qed

text \<open>Between bounds that are not negative, the slice is the usual one.\<close>

lemma py_slice_nonneg:
  "0 \<le> a \<Longrightarrow> 0 \<le> b \<Longrightarrow> py_slice xs a b = drop (nat a) (take (nat b) xs)"
  by (auto simp add: py_slice_def adjust_index_def Let_def drop_take min_def)

lemma strip_sublist: "sublist (strip s) s"
proof -
  have "suffix (dropWhile isspace s) s"
    by (rule suffix_dropWhile)
  moreover have "prefix (strip s) (dropWhile isspace s)"
    unfolding strip_def
    by (metis prefixI rev_append rev_rev_ident takeWhile_dropWhile_id)
  ultimately show ?thesis
    using sublist_altdef' by blast
qed

lemma dropWhile_fixed: "xs = [] \<or> \<not> P (hd xs) \<Longrightarrow> dropWhile P xs = xs"
  by (cases xs) auto

lemma dropWhile_head: "dropWhile P xs = [] \<or> \<not> P (hd (dropWhile P xs))"
  by (metis hd_dropWhile)

lemma strip_idem: "strip (strip s) = strip s"
proof -
  define t where "t = dropWhile isspace s"
  define r where "r = dropWhile isspace (rev t)"
  have u: "strip s = rev r" by (simp add: strip_def t_def r_def)
  have r_fix: "dropWhile isspace r = r"
    unfolding r_def by (simp add: dropWhile_idem)
  have t_head: "t = [] \<or> \<not> isspace (hd t)"
    unfolding t_def by (rule dropWhile_head)
  have "rev r = [] \<or> \<not> isspace (hd (rev r))"
  proof (cases "rev r = []")
    case True then show ?thesis by simp
  next
    case False
    have "prefix (rev r) t"
      unfolding r_def by (metis prefixI rev_append rev_rev_ident takeWhile_dropWhile_id)
    then obtain zs where "t = rev r @ zs" by (auto simp: prefix_def)
    with False have "hd t = hd (rev r)" "t \<noteq> []" by auto
    with t_head show ?thesis by auto
  qed
  then have "dropWhile isspace (rev r) = rev r" by (rule dropWhile_fixed)
  then have "strip (rev r) = rev (dropWhile isspace (rev (rev r)))"
    by (simp only: strip_def)
  also have "\<dots> = rev r" by (simp add: r_fix)
  finally show ?thesis by (simp only: u)
qed

lemma trim_right_rev: "trim_right s = rev (dropWhile isspace (rev s))"
proof (induction s)
  case Nil
  then show ?case by simp
next
  case (Cons c cs)
  show ?case
  proof (cases "\<forall>x \<in> set (rev cs). isspace x")
    case True
    then have "dropWhile isspace (rev cs) = []" by simp
    with Cons True show ?thesis by (simp add: dropWhile_append)
  next
    case False
    then have "dropWhile isspace (rev cs) \<noteq> []" by (simp add: dropWhile_eq_Nil_conv)
    with Cons False show ?thesis by (simp add: dropWhile_append)
  qed
qed

lemma strip_spec_trim: "strip s = spec_trim s"
  by (simp add: strip_def spec_trim_def trim_right_rev)

text \<open>
  Where the end of the window is not negative, the windower returns what the
  specification describes: the substring between the two positions, trimmed, between
  the ellipsis markers.
\<close>

lemma extract_context_meets_spec:
  assumes "0 \<le> offset + len + w"
  shows "extract_context text offset len w = spec_extract_context text offset len w"
proof -
  define start where "start = max 0 (offset - w)"
  define stop where "stop = min (int (length text)) (offset + len + w)"
  have "0 \<le> start" by (simp add: start_def)
  moreover from assms have "0 \<le> stop" by (simp add: stop_def)
  ultimately have slice: "py_slice text start stop = spec_substring text start stop"
    unfolding spec_substring_def by (rule py_slice_nonneg)
  have "extract_context text offset len w =
      (if text = [] then []
       else (if 0 < start then ''...'' else []) @ strip (py_slice text start stop) @
            (if stop < int (length text) then ''...'' else []))"
    unfolding start_def stop_def by (simp add: extract_context_def Let_def)
  also have "\<dots> =
      (if text = [] then []
       else (if 0 < start then ''...'' else []) @ spec_trim (spec_substring text start stop) @
            (if stop < int (length text) then ''...'' else []))"
    by (simp only: slice strip_spec_trim)
  also have "\<dots> = spec_extract_context text offset len w"
    unfolding start_def stop_def by (simp only: spec_extract_context_def Let_def)
  finally show ?thesis .
qed

text \<open>
  C6 fails where the end of the window is negative. In the text
  \<open>"0123456789abcdefghij"\<close>, with offset -10, length 0 and radius 3, the window runs
  from \<open>start = 0\<close> to \<open>end = -7\<close>, and no position lies between them: the substring
  is empty and the result of the specification is the closing ellipsis alone. The
  code bounds \<open>start\<close> below by 0 but \<open>end\<close> only above by the length of the text,
  and its slice counts a negative \<open>end\<close> from the end of the text: it returns the
  first 13 characters. The classifier reaches the same case with a span from 0 to
  -205 in the text \<open>"Fever today"\<close>.
\<close>

theorem extract_context_negative_end:
  "extract_context ''0123456789abcdefghij'' (-10) 0 3 = ''0123456789abc...'' \<and>
   spec_extract_context ''0123456789abcdefghij'' (-10) 0 3 = ''...'' \<and>
   extract_context ''Fever today'' 0 (-205) 200 = ''Fever...'' \<and>
   spec_extract_context ''Fever today'' 0 (-205) 200 = ''...''"
  by code_simp

text \<open>
  C7, as the code has it. \<open>extractContext("0123456789abcdefghij", 10, 1, 3)\<close> is
  \<open>"...789abcd..."\<close>: the three characters before position 10, the character at
  it and the three after, between two ellipses.
\<close>

theorem extract_context_radius_3:
  "extract_context ''0123456789abcdefghij'' 10 1 3 = ''...789abcd...''"
  by code_simp

text \<open>C7, as the claim states it: the result is not \<open>"...789a..."\<close>.\<close>

theorem extract_context_radius_3_counterexample:
  "extract_context ''0123456789abcdefghij'' 10 1 3 \<noteq> ''...789a...''"
  by code_simp

text \<open>
  C10. Whatever the text and the integers \<open>offset\<close>, \<open>len\<close> and \<open>w\<close>, the string
  returned is an optional ellipsis, a piece of the text and an optional ellipsis; the
  piece is a contiguous part of the text and has no whitespace at either end.
\<close>

theorem extract_context_literal:
  "\<exists>pre mid post.
      extract_context text offset len w = pre @ mid @ post \<and>
      pre \<in> {[], ''...''} \<and> post \<in> {[], ''...''} \<and>
      sublist mid text \<and> strip mid = mid"
proof (cases "text = []")
  case True
  have "extract_context text offset len w = [] @ [] @ []"
    using True by (simp add: extract_context_def)
  moreover have "strip [] = []" by (simp add: strip_def)
  ultimately show ?thesis by blast
next
  case False
  define start where "start = max 0 (offset - w)"
  define stop where "stop = min (int (length text)) (offset + len + w)"
  define mid where "mid = strip (py_slice text start stop)"
  define pre where "pre = (if 0 < start then ''...'' else [])"
  define post where "post = (if stop < int (length text) then ''...'' else [])"
  have "extract_context text offset len w = pre @ mid @ post"
    using False
    by (simp add: extract_context_def Let_def pre_def post_def mid_def start_def stop_def)
  moreover have "pre \<in> {[], ''...''}" "post \<in> {[], ''...''}"
    by (simp_all add: pre_def post_def)
  moreover have "sublist mid text"
    unfolding mid_def using strip_sublist py_slice_sublist sublist_order.order_trans by blast
  moreover have "strip mid = mid"
    unfolding mid_def by (rule strip_idem)
  ultimately show ?thesis by blast
qed

section \<open>Properties of the fallback matcher\<close>

text \<open>
  C5. On the text \<open>"Patient has hypertension and takes aspirin daily."\<close> the fallback
  matcher returns one problem, with text \<open>"Hypertension"\<close> and confidence 0.85, one
  medication, with text \<open>"Aspirin"\<close> and confidence 0.90, no procedure and no lab.
  The confidences are the floats that the literals \<open>0.85\<close> and \<open>0.90\<close> denote.
\<close>

theorem demo_extract_entities_example:
  "demo_extract_entities ''Patient has hypertension and takes aspirin daily.'' =
     \<lparr>problems =
        [[(''text'', PyStr ''Hypertension''),
          (''code'', PyStr ''DEMO-HYPERTENSION''),
          (''code_system'', PyStr ''ICD-10-CM''),
          (''description'', PyStr ''Hypertension''),
          (''confidence'', PyFloat (Finite (nearest_double 0.85))),
          (''context'', PyStr ''Patient has hypertension and takes aspirin daily.'')]],
      procedures = [],
      medications =
        [[(''text'', PyStr ''Aspirin''),
          (''code'', PyStr ''DEMO-ASPIRIN''),
          (''code_system'', PyStr ''RxNorm''),
          (''description'', PyStr ''Aspirin''),
          (''confidence'', PyFloat (Finite (nearest_double 0.90))),
          (''context'', PyStr ''Patient has hypertension and takes aspirin daily.'')]],
      labs = []\<rparr>"
  by code_simp

section \<open>Properties of the classifier\<close>

lemma parse_entities_append:
  "parse_entities original_text (es @ es') ents =
     bind_err (parse_entities original_text es ents) (parse_entities original_text es')"
  by (induction es arbitrary: ents)
     (auto simp: bind_err_def split: sum.splits option.splits)

lemma categorize_cases:
  "categorize cat r ents = ents
   \<or> categorize cat r ents = ents\<lparr>problems := problems ents @ [r]\<rparr>
   \<or> categorize cat r ents = ents\<lparr>procedures := procedures ents @ [r]\<rparr>
   \<or> categorize cat r ents = ents\<lparr>medications := medications ents @ [r]\<rparr>
   \<or> categorize cat r ents = ents\<lparr>labs := labs ents @ [r]\<rparr>"
  by (simp add: categorize_def)

lemma categorize_records:
  "set (all_records (categorize cat r ents)) \<subseteq> insert r (set (all_records ents))"
  using categorize_cases [of cat r ents]
  by (auto simp: all_records_def)

lemma parse_entities_origin:
  "parse_entities original_text es ents = Inr out \<Longrightarrow> r \<in> set (all_records out) \<Longrightarrow>
     r \<in> set (all_records ents) \<or>
     (\<exists>e \<in> set es. \<exists>cat. parse_entity original_text e = Inr (Some (cat, r)))"
proof (induction es arbitrary: ents)
  case Nil
  then show ?case by simp
next
  case (Cons e es)
  show ?case
  proof (cases "parse_entity original_text e")
    case (Inl err)
    with Cons.prems show ?thesis by simp
  next
    case (Inr res)
    show ?thesis
    proof (cases res)
      case None
      with Inr Cons.prems have "parse_entities original_text es ents = Inr out" by simp
      from Cons.IH [OF this Cons.prems(2)] show ?thesis by auto
    next
      case (Some p)
      obtain cat r' where p: "p = (cat, r')" by (cases p)
      with Some Inr Cons.prems
      have "parse_entities original_text es (categorize cat r' ents) = Inr out" by simp
      from Cons.IH [OF this Cons.prems(2)]
      have "r \<in> set (all_records (categorize cat r' ents)) \<or>
        (\<exists>e \<in> set es. \<exists>cat. parse_entity original_text e = Inr (Some (cat, r)))" .
      moreover have "r \<in> set (all_records (categorize cat r' ents)) \<Longrightarrow>
        r = r' \<or> r \<in> set (all_records ents)"
        using categorize_records [of cat r' ents] by auto
      ultimately show ?thesis
        using Inr Some p by auto
    qed
  qed
qed

lemma response_origin:
  assumes "parse_extraction_response response original_text = Inr out"
    and "r \<in> set (all_records out)"
  shows "\<exists>e \<in> set (get_default response []). \<exists>cat.
           parse_entity original_text e = Inr (Some (cat, r))"
proof (cases response)
  case None
  with assms show ?thesis
    by (auto simp: parse_extraction_response_def empty_entities_def all_records_def)
next
  case (Some es)
  with assms have "parse_entities original_text es empty_entities = Inr out"
    by (simp add: parse_extraction_response_def)
  from parse_entities_origin [OF this assms(2)] Some show ?thesis
    by (simp add: empty_entities_def all_records_def get_default_def)
qed

text \<open>On integers the windower on any values is the windower of the annotation.\<close>

lemma py_sub_int: "py_sub (PyInt a) (PyInt b) = Inr (NInt (a - b))"
  by (simp add: py_sub_def as_number_def num_sub_def)

lemma py_extract_context_int:
  "py_extract_context original_text (PyInt offset) (PyInt len) w =
     Inr (extract_context original_text offset len w)"
  by (simp add: py_extract_context_def extract_context_def as_number_def num_sub_def
      num_add_def bind_err_def exceeds_def below_def Let_def max_def min_def)

text \<open>What a record that was built says about the entity it was built from.\<close>

lemma parse_entity_SomeD:
  assumes "parse_entity original_text e = Inr (Some (cat, r))"
  shows "\<exists>len context code descr conf.
     py_lower (get_default (e_assertion e) (PyStr [])) = Inr ''present'' \<and>
     py_lower (get_default (e_semantic e) (PyStr [])) = Inr cat \<and>
     py_sub (get_default (e_end e) (PyInt 0)) (get_default (e_begin e) (PyInt 0)) = Inr len \<and>
     py_extract_context original_text (get_default (e_begin e) (PyInt 0)) (of_number len) 200 =
       Inr context \<and>
     extract_codes (e_codemaps e) = Inr (code, descr, conf) \<and>
     r = [(''text'', get_default (e_text e) (PyStr [])),
          (''code'', code),
          (''code_system'', PyStr ''IMO''),
          (''description'', descr),
          (''offset'', get_default (e_begin e) (PyInt 0)),
          (''length'', of_number len),
          (''confidence'', PyFloat conf),
          (''context'', PyStr context),
          (''entity_id'', get_default (e_id e) (PyStr [])),
          (''semantic'', get_default (e_semantic e) (PyStr [])),
          (''assertion'', get_default (e_assertion e) (PyStr [])),
          (''codemaps'', get_default (e_codemaps e) (PyDict []))]"
  using assms
  by (auto simp: parse_entity_def bind_err_def Let_def
           split: sum.splits if_splits prod.splits)

lemma key_in_items: "(k \<in> fst ` set items) = (map_of items k \<noteq> None)"
  by (simp add: map_of_eq_None_iff)

lemma extract_codes_confidence:
  assumes "extract_codes (e_codemaps e) = Inr (code, descr, conf)"
  shows "case vendor_confidence e of
           None \<Rightarrow> conf = Finite 0
         | Some v \<Rightarrow> py_float v = Inr conf"
  using assms
  by (auto simp: extract_codes_def vendor_confidence_def mapping_confidence_def
                 get_default_def bind_err_def py_in_def py_getitem_def py_get_def key_in_items
           split: option.splits pyval.splits sum.splits if_splits)

lemma demo_scan_origin:
  "r \<in> set (demo_scan original_text low cs c ks found) \<Longrightarrow>
     r \<in> set found \<or> (\<exists>k \<in> set ks. r = demo_entry original_text low cs c k)"
proof (induction ks arbitrary: found)
  case Nil
  then show ?case by simp
next
  case (Cons k ks)
  from Cons.prems
  have "r \<in> set (demo_scan original_text low cs c ks
          (if contains k low then found @ [demo_entry original_text low cs c k] else found))"
    by simp
  from Cons.IH [OF this] show ?case
    by (auto split: if_splits)
qed

lemma demo_entry_confidence:
  "map_of (demo_entry original_text low cs c k) ''confidence'' = Some (PyFloat (Finite c))"
  by (simp add: demo_entry_def Let_def)

lemma demo_problems:
  assumes "r \<in> set (problems (demo_extract_entities original_text))"
  shows "\<exists>k. r = demo_entry original_text (lower original_text) ''ICD-10-CM''
            (nearest_double 0.85) k"
proof -
  from assms have "r \<in> set (demo_scan original_text (lower original_text) ''ICD-10-CM''
      (nearest_double 0.85) problem_keywords [])"
    by (simp add: demo_extract_entities_def Let_def)
  from demo_scan_origin [OF this] show ?thesis by auto
qed

lemma demo_procedures:
  assumes "r \<in> set (procedures (demo_extract_entities original_text))"
  shows "\<exists>k. r = demo_entry original_text (lower original_text) ''CPT''
            (nearest_double 0.80) k"
proof -
  from assms have "r \<in> set (demo_scan original_text (lower original_text) ''CPT''
      (nearest_double 0.80) procedure_keywords [])"
    by (simp add: demo_extract_entities_def Let_def)
  from demo_scan_origin [OF this] show ?thesis by auto
qed

lemma demo_medications:
  assumes "r \<in> set (medications (demo_extract_entities original_text))"
  shows "\<exists>k. r = demo_entry original_text (lower original_text) ''RxNorm''
            (nearest_double 0.90) k"
proof -
  from assms have "r \<in> set (demo_scan original_text (lower original_text) ''RxNorm''
      (nearest_double 0.90) medication_keywords [])"
    by (simp add: demo_extract_entities_def Let_def)
  from demo_scan_origin [OF this] show ?thesis by auto
qed

lemma demo_labs:
  assumes "r \<in> set (labs (demo_extract_entities original_text))"
  shows "\<exists>k. r = demo_entry original_text (lower original_text) ''LOINC''
            (nearest_double 0.75) k"
proof -
  from assms have "r \<in> set (demo_scan original_text (lower original_text) ''LOINC''
      (nearest_double 0.75) lab_keywords [])"
    by (simp add: demo_extract_entities_def Let_def)
  from demo_scan_origin [OF this] show ?thesis by auto
qed

text \<open>The four literals of the fallback matcher, as doubles.\<close>

lemma double_080: "nearest_double 0.80 = 3602879701896397 / 4503599627370496"
  by (simp add: rounding_defs)

lemma double_090: "nearest_double 0.90 = 8106479329266893 / 9007199254740992"
  by (simp add: rounding_defs)

lemma double_075: "nearest_double 0.75 = 3 / 4"
  by (simp add: rounding_defs)

lemma unit_doubles:
  "0 \<le> nearest_double 0.85 \<and> nearest_double 0.85 \<le> 1"
  "0 \<le> nearest_double 0.80 \<and> nearest_double 0.80 \<le> 1"
  "0 \<le> nearest_double 0.90 \<and> nearest_double 0.90 \<le> 1"
  "0 \<le> nearest_double 0.75 \<and> nearest_double 0.75 \<le> 1"
  using double_085 double_080 double_090 double_075 by simp_all

lemma valid_confidenceI:
  "map_of r ''confidence'' = Some (PyFloat (Finite c)) \<Longrightarrow> 0 \<le> c \<and> c \<le> 1 \<Longrightarrow>
     valid_confidence r"
  by (simp add: valid_confidence_def unit_float_def)

lemma demo_fever:
  "demo_extract_entities ''fever'' =
     \<lparr>problems =
        [[(''text'', PyStr ''Fever''),
          (''code'', PyStr ''DEMO-FEVER''),
          (''code_system'', PyStr ''ICD-10-CM''),
          (''description'', PyStr ''Fever''),
          (''confidence'', PyFloat (Finite (nearest_double 0.85))),
          (''context'', PyStr ''fever'')]],
      procedures = [], medications = [], labs = []\<rparr>"
  by code_simp

text \<open>
  C1, as the code has it. Every record of the fallback matcher carries the confidence
  of its category, the float 0.85 for a problem, 0.80 for a procedure, 0.90 for a
  medication and 0.75 for a lab, each a finite value between 0.0 and 1.0. Every
  record of the classifier is the record that the loop body builds from a span of
  the response, and carries the code mappings of that span; its confidence is 0.0
  when the \<open>imo\<close> mapping of that span has no confidence, and otherwise the vendor's
  value converted by \<open>float\<close>, unchanged. So the records of the classifier have a
  finite confidence between 0.0 and 1.0 when the vendor's confidences convert into
  that range; nothing clamps them.
\<close>

theorem confidence_unit_interval:
  "(\<forall>r \<in> set (problems (demo_extract_entities demo_text)).
      map_of r ''confidence'' = Some (PyFloat (Finite (nearest_double 0.85)))) \<and>
   (\<forall>r \<in> set (procedures (demo_extract_entities demo_text)).
      map_of r ''confidence'' = Some (PyFloat (Finite (nearest_double 0.80)))) \<and>
   (\<forall>r \<in> set (medications (demo_extract_entities demo_text)).
      map_of r ''confidence'' = Some (PyFloat (Finite (nearest_double 0.90)))) \<and>
   (\<forall>r \<in> set (labs (demo_extract_entities demo_text)).
      map_of r ''confidence'' = Some (PyFloat (Finite (nearest_double 0.75)))) \<and>
   (\<forall>r \<in> set (all_records (demo_extract_entities demo_text)). valid_confidence r) \<and>
   (parse_extraction_response response original_text = Inr out \<longrightarrow>
      (\<forall>r \<in> set (all_records out).
         \<exists>e \<in> set (get_default response []). \<exists>cat conf.
           parse_entity original_text e = Inr (Some (cat, r)) \<and>
           map_of r ''codemaps'' = Some (get_default (e_codemaps e) (PyDict [])) \<and>
           map_of r ''confidence'' = Some (PyFloat conf) \<and>
           (case vendor_confidence e of
              None \<Rightarrow> conf = Finite 0
            | Some v \<Rightarrow> py_float v = Inr conf))) \<and>
   (parse_extraction_response response original_text = Inr out \<longrightarrow>
      list_all vendor_unit (get_default response []) \<longrightarrow>
      (\<forall>r \<in> set (all_records out). valid_confidence r))"
proof -
  have p: "map_of r ''confidence'' = Some (PyFloat (Finite (nearest_double 0.85)))"
    if "r \<in> set (problems (demo_extract_entities demo_text))" for r
    using demo_problems [OF that] by (auto simp only: demo_entry_confidence)
  have c: "map_of r ''confidence'' = Some (PyFloat (Finite (nearest_double 0.80)))"
    if "r \<in> set (procedures (demo_extract_entities demo_text))" for r
    using demo_procedures [OF that] by (auto simp only: demo_entry_confidence)
  have m: "map_of r ''confidence'' = Some (PyFloat (Finite (nearest_double 0.90)))"
    if "r \<in> set (medications (demo_extract_entities demo_text))" for r
    using demo_medications [OF that] by (auto simp only: demo_entry_confidence)
  have l: "map_of r ''confidence'' = Some (PyFloat (Finite (nearest_double 0.75)))"
    if "r \<in> set (labs (demo_extract_entities demo_text))" for r
    using demo_labs [OF that] by (auto simp only: demo_entry_confidence)
  have demo: "valid_confidence r"
    if "r \<in> set (all_records (demo_extract_entities demo_text))" for r
  proof -
    from that p c m l
    have "map_of r ''confidence'' = Some (PyFloat (Finite (nearest_double 0.85))) \<or>
          map_of r ''confidence'' = Some (PyFloat (Finite (nearest_double 0.80))) \<or>
          map_of r ''confidence'' = Some (PyFloat (Finite (nearest_double 0.90))) \<or>
          map_of r ''confidence'' = Some (PyFloat (Finite (nearest_double 0.75)))"
      unfolding all_records_def by auto
    then show ?thesis
      using unit_doubles by (blast intro: valid_confidenceI)
  qed
  have origin: "\<exists>e \<in> set (get_default response []). \<exists>cat conf.
           parse_entity original_text e = Inr (Some (cat, r)) \<and>
           map_of r ''codemaps'' = Some (get_default (e_codemaps e) (PyDict [])) \<and>
           map_of r ''confidence'' = Some (PyFloat conf) \<and>
           (case vendor_confidence e of
              None \<Rightarrow> conf = Finite 0
            | Some v \<Rightarrow> py_float v = Inr conf)"
    if out: "parse_extraction_response response original_text = Inr out"
      and r: "r \<in> set (all_records out)" for r
  proof -
    from response_origin [OF out r] obtain e cat
      where e: "e \<in> set (get_default response [])"
        and pe: "parse_entity original_text e = Inr (Some (cat, r))" by blast
    from parse_entity_SomeD [OF pe] obtain code descr conf
      where codes: "extract_codes (e_codemaps e) = Inr (code, descr, conf)"
        and conf: "map_of r ''confidence'' = Some (PyFloat conf)"
        and cm: "map_of r ''codemaps'' = Some (get_default (e_codemaps e) (PyDict []))"
      by auto
    from extract_codes_confidence [OF codes] e pe conf cm show ?thesis by blast
  qed
  have unit: "valid_confidence r"
    if out: "parse_extraction_response response original_text = Inr out"
      and ok: "list_all vendor_unit (get_default response [])"
      and r: "r \<in> set (all_records out)" for r
  proof -
    from origin [OF out r] obtain e conf
      where e: "e \<in> set (get_default response [])"
        and conf: "map_of r ''confidence'' = Some (PyFloat conf)"
        and v: "case vendor_confidence e of
                  None \<Rightarrow> conf = Finite 0 | Some v \<Rightarrow> py_float v = Inr conf"
      by blast
    from ok e have "vendor_unit e" by (simp add: list_all_iff)
    with v have "unit_float conf"
      by (auto simp: vendor_unit_def unit_float_def split: option.splits)
    with conf show ?thesis by (simp add: valid_confidence_def)
  qed
  from p c m l demo origin unit show ?thesis by blast
qed

lemma example_span_parsed:
  "py_float conf = Inr confidence \<Longrightarrow>
     parse_entity original_text (example_span b n conf) =
       Inr (Some (''problem'',
         example_record b n conf confidence (extract_context original_text b (n - b) 200)))"
  by (simp add: example_span_def example_record_def parse_entity_def extract_codes_def
      bind_err_def get_default_def py_lower_def py_in_def py_getitem_def py_get_def
      py_sub_int py_extract_context_int of_number_def ignore_patterns_def Let_def string_defs)

lemma fever_today_context: "extract_context ''Fever today'' 0 5 200 = ''Fever today''"
  by (simp add: extract_context_def py_slice_def adjust_index_def Let_def string_defs)



lemma categorize_problem:
  "categorize ''problem'' r ents = ents\<lparr>problems := problems ents @ [r]\<rparr>"
  by (simp add: categorize_def string_defs)

lemma example_response:
  assumes "py_float conf = Inr confidence"
  shows "parse_extraction_response (Some [example_span 0 5 conf]) ''Fever today'' =
     Inr \<lparr>problems = [example_record 0 5 conf confidence ''Fever today''],
          procedures = [], medications = [], labs = []\<rparr>"
  using example_span_parsed [OF assms, of "''Fever today''" 0 5] fever_today_context
  by (simp add: parse_extraction_response_def categorize_problem empty_entities_def)

text \<open>
  C1, as the claim states it, fails: a span whose vendor confidence is the integer 5
  gives a record whose confidence is 5.0.
\<close>

theorem confidence_unit_interval_counterexample:
  "parse_extraction_response (Some [example_span 0 5 (PyInt 5)]) ''Fever today'' =
     Inr \<lparr>problems = [example_record 0 5 (PyInt 5) (Finite 5) ''Fever today''],
          procedures = [], medications = [], labs = []\<rparr>
   \<and> \<not> valid_confidence (example_record 0 5 (PyInt 5) (Finite 5) ''Fever today'')"
  by (simp add: example_response [OF float_of_5] example_record_def valid_confidence_def
      unit_float_def)

text \<open>
  C1 at a span whose vendor confidence is 0.5, and at the text \<open>"fever"\<close> for the
  fallback matcher.
\<close>

theorem confidence_unit_interval_witness:
  "parse_extraction_response (Some [example_span 0 5 (PyFloat (Finite 0.5))]) ''Fever today'' =
     Inr \<lparr>problems = [example_record 0 5 (PyFloat (Finite 0.5)) (Finite 0.5) ''Fever today''],
          procedures = [], medications = [], labs = []\<rparr>
   \<and> list_all vendor_unit [example_span 0 5 (PyFloat (Finite 0.5))]
   \<and> valid_confidence (example_record 0 5 (PyFloat (Finite 0.5)) (Finite 0.5) ''Fever today'')
   \<and> map_of (hd (problems (demo_extract_entities ''fever''))) ''confidence'' =
       Some (PyFloat (Finite (nearest_double 0.85)))
   \<and> valid_confidence (hd (problems (demo_extract_entities ''fever'')))"
proof -
  let ?e = "example_span 0 5 (PyFloat (Finite 0.5))"
  let ?r = "example_record 0 5 (PyFloat (Finite 0.5)) (Finite 0.5) ''Fever today''"
  let ?out = "\<lparr>problems = [?r], procedures = [], medications = [], labs = []\<rparr>"
  have "py_float (PyFloat (Finite 0.5)) = Inr (Finite 0.5)" by simp
  then have run: "parse_extraction_response (Some [?e]) ''Fever today'' = Inr ?out"
    by (rule example_response)
  have ok: "list_all vendor_unit (get_default (Some [?e]) [])"
    by (simp add: get_default_def vendor_unit_def vendor_confidence_def mapping_confidence_def
        example_span_def unit_float_def)
  have in_out: "?r \<in> set (all_records ?out)"
    by (simp add: all_records_def)
  have first: "hd (problems (demo_extract_entities ''fever'')) \<in>
      set (problems (demo_extract_entities ''fever''))"
    by (simp add: demo_fever)
  then have first': "hd (problems (demo_extract_entities ''fever'')) \<in>
      set (all_records (demo_extract_entities ''fever''))"
    by (simp add: all_records_def)
  note inst = confidence_unit_interval [of "''fever''" "Some [?e]" "''Fever today''" ?out]
  from inst run ok in_out have api: "valid_confidence ?r" by blast
  from inst first
  have conf: "map_of (hd (problems (demo_extract_entities ''fever''))) ''confidence'' =
      Some (PyFloat (Finite (nearest_double 0.85)))" by blast
  from inst first' have "valid_confidence (hd (problems (demo_extract_entities ''fever'')))"
    by blast
  with run ok api conf show ?thesis by (simp add: get_default_def)
qed







lemma window_clamped:
  assumes "n < b" and "int (length t) \<le> n + 200"
  shows "extract_context t b (n - b) 200 = extract_context t b 0 200"
proof -
  from assms have "min (int (length t)) (b + (n - b) + 200) = int (length t)"
    and "min (int (length t)) (b + 0 + 200) = int (length t)"
    by simp_all
  then show ?thesis
    by (simp only: extract_context_def Let_def)
qed

text \<open>
  C3, as the code has it. The record of an accepted span with integer \<open>begin\<close> and
  \<open>end\<close> carries \<open>length = end - begin\<close> and the context of the windower called with
  that length, unchanged, and the radius 200. Where the length is negative, the
  window is the one of a span of length zero at the same offset when the text ends
  within 200 characters of \<open>end\<close>, where both windows are cut at the end of the text.
\<close>

theorem negative_length_window:
  assumes "parse_entity original_text e = Inr (Some (cat, r))"
    and "get_default (e_begin e) (PyInt 0) = PyInt offset"
    and "get_default (e_end e) (PyInt 0) = PyInt end_offset"
  shows "map_of r ''length'' = Some (PyInt (end_offset - offset)) \<and>
         map_of r ''context'' =
           Some (PyStr (extract_context original_text offset (end_offset - offset) 200)) \<and>
         (end_offset < offset \<longrightarrow> int (length original_text) \<le> end_offset + 200 \<longrightarrow>
            extract_context original_text offset (end_offset - offset) 200 =
            extract_context original_text offset 0 200)"
proof -
  from parse_entity_SomeD [OF assms(1)] obtain len ctx where
    len: "py_sub (get_default (e_end e) (PyInt 0)) (get_default (e_begin e) (PyInt 0)) = Inr len"
    and ctx: "py_extract_context original_text (get_default (e_begin e) (PyInt 0))
        (of_number len) 200 = Inr ctx"
    and length_field: "map_of r ''length'' = Some (of_number len)"
    and context_field: "map_of r ''context'' = Some (PyStr ctx)"
    by auto
  from len have int_len: "len = NInt (end_offset - offset)"
    by (simp add: assms(2,3) py_sub_int)
  with ctx have "ctx = extract_context original_text offset (end_offset - offset) 200"
    by (simp add: assms(2) of_number_def py_extract_context_int)
  with length_field context_field int_len
  have "map_of r ''length'' = Some (PyInt (end_offset - offset))"
    and "map_of r ''context'' =
      Some (PyStr (extract_context original_text offset (end_offset - offset) 200))"
    by (simp_all add: of_number_def)
  with window_clamped [of end_offset offset original_text] show ?thesis
    by blast
qed

lemma dropWhile_none: "\<forall>x \<in> set xs. \<not> P x \<Longrightarrow> dropWhile P xs = xs"
  by (cases xs) simp_all

lemma strip_no_space:
  assumes "\<forall>c \<in> set s. \<not> isspace c"
  shows "strip s = s"
proof -
  have front: "dropWhile isspace s = s"
    using assms by (rule dropWhile_none)
  from assms have "\<forall>c \<in> set (rev s). \<not> isspace c" by simp
  then have "dropWhile isspace (rev s) = rev s"
    by (rule dropWhile_none)
  with front show ?thesis by (simp add: strip_def)
qed

lemma strip_xs: "strip (replicate k CHR ''x'') = replicate k CHR ''x''"
  by (rule strip_no_space) (simp add: isspace_def)

lemma window_of_reversed_span:
  "extract_context (replicate 300 CHR ''x'') 10 (-10) 200 = replicate 200 CHR ''x'' @ ''...''"
  by (simp add: extract_context_def py_slice_def adjust_index_def Let_def strip_xs)

lemma window_of_empty_span:
  "extract_context (replicate 300 CHR ''x'') 10 0 200 = replicate 210 CHR ''x'' @ ''...''"
  by (simp add: extract_context_def py_slice_def adjust_index_def Let_def strip_xs)

text \<open>
  C3, as the claim states it, fails: in a text of 300 characters, the span from 10 to
  0 gets the first 200 characters as context, and a span of length zero at offset 10
  the first 210.
\<close>

theorem negative_length_window_counterexample:
  "parse_entity (replicate 300 CHR ''x'') (example_span 10 0 (PyInt 1)) =
     Inr (Some (''problem'',
       example_record 10 0 (PyInt 1) (Finite 1) (replicate 200 CHR ''x'' @ ''...'')))
   \<and> extract_context (replicate 300 CHR ''x'') 10 0 200 = replicate 210 CHR ''x'' @ ''...''
   \<and> replicate 200 CHR ''x'' @ ''...'' \<noteq> replicate 210 CHR ''x'' @ ''...''"
proof -
  have "length (replicate 200 CHR ''x'' @ ''...'') \<noteq> length (replicate 210 CHR ''x'' @ ''...'')"
    by simp
  then have differ: "replicate 200 CHR ''x'' @ ''...'' \<noteq> replicate 210 CHR ''x'' @ ''...''"
    by (rule contrapos_nn) (erule arg_cong)
  have "(0::int) - 10 = -10" by simp
  with example_span_parsed [OF float_of_1, of "replicate 300 CHR ''x''" 10 0]
    window_of_reversed_span
  have "parse_entity (replicate 300 CHR ''x'') (example_span 10 0 (PyInt 1)) =
     Inr (Some (''problem'',
       example_record 10 0 (PyInt 1) (Finite 1) (replicate 200 CHR ''x'' @ ''...'')))"
    by (simp only:)
  with window_of_empty_span differ show ?thesis
    by (intro conjI)
qed

text \<open>
  C3 at the span from 5 to 0 of an 11-character text.
\<close>

theorem negative_length_window_witness:
  "parse_entity ''Fever today'' (example_span 5 0 (PyInt 1)) =
     Inr (Some (''problem'', example_record 5 0 (PyInt 1) (Finite 1) ''Fever today''))
   \<and> extract_context ''Fever today'' 5 (0 - 5) 200 = extract_context ''Fever today'' 5 0 200"
proof -
  let ?e = "example_span 5 0 (PyInt 1)"
  let ?r = "example_record 5 0 (PyInt 1) (Finite 1) ''Fever today''"
  have "extract_context ''Fever today'' 5 (0 - 5) 200 = ''Fever today''"
    by (simp add: extract_context_def py_slice_def adjust_index_def Let_def string_defs)
  with example_span_parsed [OF float_of_1, of "''Fever today''" 5 0]
  have run: "parse_entity ''Fever today'' ?e = Inr (Some (''problem'', ?r))"
    by (simp only:)
  have b: "get_default (e_begin ?e) (PyInt 0) = PyInt 5"
    and n: "get_default (e_end ?e) (PyInt 0) = PyInt 0"
    by (simp_all add: get_default_def example_span_def)
  have short: "int (length ''Fever today'') \<le> 0 + 200" by simp
  from negative_length_window [OF run b n] short
  have "extract_context ''Fever today'' 5 (0 - 5) 200 = extract_context ''Fever today'' 5 0 200"
    by (simp del: length_greater_0_conv)
  with run show ?thesis by (intro conjI)
qed

lemma demo_entry_fields:
  "map fst (demo_entry original_text low cs c k) =
     [''text'', ''code'', ''code_system'', ''description'', ''confidence'', ''context'']"
  by (simp add: demo_entry_def Let_def)

lemma demo_record:
  assumes "r \<in> set (all_records (demo_extract_entities original_text))"
  shows "\<exists>cs c k. r = demo_entry original_text (lower original_text) cs c k"
  using assms demo_problems demo_procedures demo_medications demo_labs
  unfolding all_records_def set_append Un_iff by blast

text \<open>
  C4, as the code has it. Every record of the fallback matcher has exactly the six
  fields \<open>text\<close>, \<open>code\<close>, \<open>code_system\<close>, \<open>description\<close>, \<open>confidence\<close> and
  \<open>context\<close>; every record of the classifier has these and \<open>offset\<close>, \<open>length\<close>,
  \<open>entity_id\<close>, \<open>semantic\<close>, \<open>assertion\<close> and \<open>codemaps\<close>, twelve in all.
\<close>

theorem record_fields:
  "(\<forall>r \<in> set (all_records (demo_extract_entities original_text)).
      map fst r =
        [''text'', ''code'', ''code_system'', ''description'', ''confidence'', ''context'']) \<and>
   (parse_extraction_response response original_text = Inr out \<longrightarrow>
      (\<forall>r \<in> set (all_records out).
         map fst r =
           [''text'', ''code'', ''code_system'', ''description'', ''offset'', ''length'',
            ''confidence'', ''context'', ''entity_id'', ''semantic'', ''assertion'',
            ''codemaps'']))"
proof -
  have demo: "map fst r =
      [''text'', ''code'', ''code_system'', ''description'', ''confidence'', ''context'']"
    if "r \<in> set (all_records (demo_extract_entities original_text))" for r
  proof -
    from demo_record [OF that] obtain cs c k
      where "r = demo_entry original_text (lower original_text) cs c k" by blast
    then show ?thesis by (simp only: demo_entry_fields)
  qed
  have api: "map fst r =
      [''text'', ''code'', ''code_system'', ''description'', ''offset'', ''length'',
       ''confidence'', ''context'', ''entity_id'', ''semantic'', ''assertion'', ''codemaps'']"
    if out: "parse_extraction_response response original_text = Inr out"
      and r: "r \<in> set (all_records out)" for r
  proof -
    from response_origin [OF out r] obtain e cat
      where "parse_entity original_text e = Inr (Some (cat, r))" by blast
    from parse_entity_SomeD [OF this] show ?thesis by auto
  qed
  from demo api show ?thesis by blast
qed

text \<open>
  C4, as the claim states it, fails: the record that the fallback matcher returns for
  the text \<open>"fever"\<close> has no field \<open>offset\<close>.
\<close>

theorem record_fields_counterexample:
  "demo_extract_entities ''fever'' =
     \<lparr>problems =
        [[(''text'', PyStr ''Fever''),
          (''code'', PyStr ''DEMO-FEVER''),
          (''code_system'', PyStr ''ICD-10-CM''),
          (''description'', PyStr ''Fever''),
          (''confidence'', PyFloat (Finite (nearest_double 0.85))),
          (''context'', PyStr ''fever'')]],
      procedures = [], medications = [], labs = []\<rparr>
   \<and> map_of [(''text'', PyStr ''Fever''),
          (''code'', PyStr ''DEMO-FEVER''),
          (''code_system'', PyStr ''ICD-10-CM''),
          (''description'', PyStr ''Fever''),
          (''confidence'', PyFloat (Finite (nearest_double 0.85))),
          (''context'', PyStr ''fever'')] ''offset'' = None"
  using demo_fever by simp

text \<open>
  C4 at the text \<open>"fever"\<close> for the fallback matcher and at the example span for the
  classifier.
\<close>

theorem record_fields_witness:
  "map fst (hd (problems (demo_extract_entities ''fever''))) =
     [''text'', ''code'', ''code_system'', ''description'', ''confidence'', ''context'']
   \<and> map fst (example_record 0 5 (PyInt 1) (Finite 1) ''Fever today'') =
     [''text'', ''code'', ''code_system'', ''description'', ''offset'', ''length'',
      ''confidence'', ''context'', ''entity_id'', ''semantic'', ''assertion'', ''codemaps'']"
proof -
  let ?out = "\<lparr>problems = [example_record 0 5 (PyInt 1) (Finite 1) ''Fever today''],
          procedures = [], medications = [], labs = []\<rparr>"
  have demo: "hd (problems (demo_extract_entities ''fever'')) \<in>
      set (all_records (demo_extract_entities ''fever''))"
    by (simp add: demo_fever all_records_def)
  have run: "parse_extraction_response (Some [example_span 0 5 (PyInt 1)]) ''Fever today'' =
      Inr ?out"
    by (rule example_response [OF float_of_1])
  have api: "example_record 0 5 (PyInt 1) (Finite 1) ''Fever today'' \<in> set (all_records ?out)"
    by (simp add: all_records_def)
  from record_fields [of "''fever''"] demo
  have left: "map fst (hd (problems (demo_extract_entities ''fever''))) =
     [''text'', ''code'', ''code_system'', ''description'', ''confidence'', ''context'']"
    by blast
  from record_fields [of "''Fever today''" "Some [example_span 0 5 (PyInt 1)]" ?out] run api
  have "map fst (example_record 0 5 (PyInt 1) (Finite 1) ''Fever today'') =
     [''text'', ''code'', ''code_system'', ''description'', ''offset'', ''length'',
      ''confidence'', ''context'', ''entity_id'', ''semantic'', ''assertion'', ''codemaps'']"
    by blast
  with left show ?thesis by (intro conjI)
qed

lemma parse_entities_skip:
  assumes "parse_entity original_text e = Inr None"
  shows "parse_entities original_text (es @ e # es') ents =
         parse_entities original_text (es @ es') ents"
  using assms by (simp add: parse_entities_append bind_err_def split: sum.splits)

text \<open>
  C8. A span whose assertion, lower-cased, is not \<open>present\<close> is skipped: the
  classifier returns what it returns for the response without that span, every
  record of its result was built from one of the other spans, and every record of a
  result carries an assertion that is \<open>present\<close> when lower-cased.
\<close>

theorem assertion_filter:
  assumes "py_lower (get_default (e_assertion e) (PyStr [])) = Inr a"
    and "a \<noteq> ''present''"
  shows "parse_entity original_text e = Inr None \<and>
         parse_extraction_response (Some (es @ e # es')) original_text =
           parse_extraction_response (Some (es @ es')) original_text \<and>
         (\<forall>out. parse_extraction_response (Some (es @ e # es')) original_text = Inr out \<longrightarrow>
            (\<forall>r \<in> set (all_records out).
               (\<exists>e' \<in> set (es @ es'). \<exists>cat. parse_entity original_text e' = Inr (Some (cat, r))) \<and>
               (\<exists>s. map_of r ''assertion'' = Some (PyStr s) \<and> lower s = ''present'')))"
proof -
  from assms have skip: "parse_entity original_text e = Inr None"
    by (simp add: parse_entity_def bind_err_def)
  then have same: "parse_extraction_response (Some (es @ e # es')) original_text =
      parse_extraction_response (Some (es @ es')) original_text"
    by (simp add: parse_extraction_response_def parse_entities_skip)
  have "(\<exists>e' \<in> set (es @ es'). \<exists>cat. parse_entity original_text e' = Inr (Some (cat, r))) \<and>
        (\<exists>s. map_of r ''assertion'' = Some (PyStr s) \<and> lower s = ''present'')"
    if out: "parse_extraction_response (Some (es @ e # es')) original_text = Inr out"
      and r: "r \<in> set (all_records out)" for out r
  proof -
    from out same
    have "parse_extraction_response (Some (es @ es')) original_text = Inr out" by simp
    from response_origin [OF this r] obtain e' cat
      where e': "e' \<in> set (es @ es')"
        and pe: "parse_entity original_text e' = Inr (Some (cat, r))"
      by (auto simp: get_default_def)
    from parse_entity_SomeD [OF pe] obtain code descr conf
      where present: "py_lower (get_default (e_assertion e') (PyStr [])) = Inr ''present''"
        and field: "map_of r ''assertion'' = Some (get_default (e_assertion e') (PyStr []))"
      by auto
    from present obtain s where "get_default (e_assertion e') (PyStr []) = PyStr s"
      and "lower s = ''present''"
      by (auto simp: py_lower_def split: pyval.splits)
    with field e' pe show ?thesis by auto
  qed
  with skip same show ?thesis by blast
qed

text \<open>
  C8 at a response of two spans, the first with the assertion \<open>"Absent"\<close>.
\<close>

theorem assertion_filter_witness:
  "py_lower (get_default (e_assertion ((example_span 0 5 (PyInt 1))\<lparr>e_assertion := Some (PyStr ''Absent'')\<rparr>))
      (PyStr [])) = Inr ''absent''
   \<and> ''absent'' \<noteq> ''present''
   \<and> parse_extraction_response
       (Some [(example_span 0 5 (PyInt 1))\<lparr>e_assertion := Some (PyStr ''Absent'')\<rparr>,
              example_span 0 5 (PyInt 1)]) ''Fever today'' =
      Inr \<lparr>problems = [example_record 0 5 (PyInt 1) (Finite 1) ''Fever today''],
           procedures = [], medications = [], labs = []\<rparr>"
proof -
  let ?e = "(example_span 0 5 (PyInt 1))\<lparr>e_assertion := Some (PyStr ''Absent'')\<rparr>"
  have a: "py_lower (get_default (e_assertion ?e) (PyStr [])) = Inr ''absent''"
    by (simp add: get_default_def py_lower_def string_defs)
  have ne: "''absent'' \<noteq> ''present''" by simp
  from assertion_filter [OF a ne, of "''Fever today''" "[]" "[example_span 0 5 (PyInt 1)]"]
  have "parse_extraction_response (Some [?e, example_span 0 5 (PyInt 1)]) ''Fever today'' =
      parse_extraction_response (Some [example_span 0 5 (PyInt 1)]) ''Fever today''"
    by simp
  with example_response [OF float_of_1] a ne show ?thesis by simp
qed

lemma categorize_first_match: "categorize cat r ents = append_to (first_match cat) r ents"
  by (simp add: categorize_def first_match_def keyword_groups_def)

lemma append_to_count:
  "count_list (all_records (append_to c r ents)) r =
     count_list (all_records ents) r + (case c of None \<Rightarrow> 0 | Some k \<Rightarrow> 1)"
  by (cases "(c, r, ents)" rule: append_to.cases) (simp_all add: all_records_def)

lemma parse_entities_step:
  assumes "parse_entity original_text e = Inr (Some (cat, r))"
  shows "parse_entities original_text (es @ e # es') ents =
     bind_err (parse_entities original_text es ents)
       (\<lambda>acc. parse_entities original_text es' (categorize cat r acc))"
  using assms by (simp add: parse_entities_append bind_err_def split: sum.splits)

text \<open>
  C9. A span accepted by the filters is filed under its lower-cased semantic label:
  after the spans before it, its record is appended to the sequence of the first
  keyword group that has a keyword inside the label, and to no sequence when no
  group has one; so the record is added once or not at all.
\<close>

theorem category_assignment:
  assumes "parse_entity original_text e = Inr (Some (cat, r))"
  shows "py_lower (get_default (e_semantic e) (PyStr [])) = Inr cat \<and>
         parse_entities original_text (es @ e # es') ents =
           bind_err (parse_entities original_text es ents)
             (\<lambda>acc. parse_entities original_text es' (append_to (first_match cat) r acc)) \<and>
         count_list (all_records (append_to (first_match cat) r acc)) r =
           count_list (all_records acc) r + (case first_match cat of None \<Rightarrow> 0 | Some k \<Rightarrow> 1)"
proof -
  from parse_entity_SomeD [OF assms]
  have "py_lower (get_default (e_semantic e) (PyStr [])) = Inr cat" by blast
  moreover from parse_entities_step [OF assms]
  have "parse_entities original_text (es @ e # es') ents =
      bind_err (parse_entities original_text es ents)
        (\<lambda>acc. parse_entities original_text es' (append_to (first_match cat) r acc))"
    by (simp only: categorize_first_match)
  ultimately show ?thesis
    using append_to_count by blast
qed

lemma first_match_lab_procedure: "first_match ''lab procedure'' = Some Procedures"
  by (simp add: first_match_def keyword_groups_def string_defs)

text \<open>
  C9 at the label \<open>"Lab Procedure"\<close>, which has a keyword of the procedures and one
  of the labs: the record goes to the procedures.
\<close>

theorem category_assignment_witness:
  "first_match ''lab procedure'' = Some Procedures \<and>
   (\<exists>r. parse_entity ''Fever today''
           ((example_span 0 5 (PyInt 1))\<lparr>e_semantic := Some (PyStr ''Lab Procedure'')\<rparr>) =
         Inr (Some (''lab procedure'', r)) \<and>
        parse_entities ''Fever today''
           [(example_span 0 5 (PyInt 1))\<lparr>e_semantic := Some (PyStr ''Lab Procedure'')\<rparr>]
           empty_entities =
         Inr \<lparr>problems = [], procedures = [r], medications = [], labs = []\<rparr>)"
proof -
  let ?e = "(example_span 0 5 (PyInt 1))\<lparr>e_semantic := Some (PyStr ''Lab Procedure'')\<rparr>"
  have "\<exists>r. parse_entity ''Fever today'' ?e = Inr (Some (''lab procedure'', r))"
    using float_of_1
    by (simp add: example_span_def parse_entity_def extract_codes_def
      bind_err_def get_default_def py_lower_def py_in_def py_getitem_def py_get_def
      py_sub_int py_extract_context_int of_number_def ignore_patterns_def Let_def string_defs
      del: py_float.simps)
  then obtain r where run: "parse_entity ''Fever today'' ?e = Inr (Some (''lab procedure'', r))"
    by blast
  from category_assignment [OF run, of "[]" "[]" empty_entities]
  have "parse_entities ''Fever today'' [?e] empty_entities =
      Inr \<lparr>problems = [], procedures = [r], medications = [], labs = []\<rparr>"
    by (simp add: bind_err_def first_match_lab_procedure empty_entities_def)
  with run first_match_lab_procedure show ?thesis by blast
qed

end
